theory Spec2Isabelle
  imports Complex_Main "HOL-Library.AList"
begin

section \<open>Job lifecycle and segment pipeline of the audio backend\<close>

text \<open>
  A shallow embedding of \<^verbatim>\<open>audio_backend/models/job_manager.py\<close>,
  \<^verbatim>\<open>audio_backend/models/audio_config.py\<close> (the stage validator),
  \<^verbatim>\<open>audio_backend/pipeline/processor.py\<close> and \<^verbatim>\<open>process_job\<close> of
  \<^verbatim>\<open>audio_backend/main.py\<close>.

  Conventions.
  \<^item> Python objects mutated in place become records passed and returned.
  \<^item> Python floats are modelled as exact reals (rounding is not modelled).
  \<^item> Strings are byte lists; \<^verbatim>\<open>str.lower\<close> is modelled on ASCII letters.
  \<^item> \<^verbatim>\<open>datetime.now()\<close> and \<^verbatim>\<open>uuid.uuid4()\<close> are inputs: every operation that
    reads the clock takes the instant \<open>now\<close>, and \<^verbatim>\<open>create_job\<close> takes the fresh id.
  \<^item> A dictionary whose iteration order is observable is an association list in
    insertion order (\<open>AList.update\<close> replaces a present key in place and appends an
    absent one, as a Python dict does).
  \<^item> A raised exception is the \<open>Inl\<close> branch of a sum; writing the metadata
    file is assumed to succeed.
  \<^item> The values of a segment definition's times are JSON values, so that the arithmetic
    of the job's construction can raise as Python's does.
\<close>

subsection \<open>Exceptions\<close>

datatype exn =
    ValueError string
  | TypeError string
  | CalledProcessError string
  | RuntimeError string

fun exn_str :: "exn \<Rightarrow> string" where
  "exn_str (ValueError m) = m"
| "exn_str (TypeError m) = m"
| "exn_str (CalledProcessError m) = m"
| "exn_str (RuntimeError m) = m"

subsection \<open>Configuration (audio\_config.py)\<close>

text \<open>
  Of \<^verbatim>\<open>AudioProcessingConfig\<close> the fields that decide control flow are kept:
  the four \<^verbatim>\<open>enabled\<close> flags, \<^verbatim>\<open>pipeline_stages\<close>,
  \<^verbatim>\<open>processing.clear_cache_between_segments\<close> and \<^verbatim>\<open>quality.output_format.value\<close>.
  The numeric parameters are only handed on to the stage implementations and to ffmpeg,
  which are opaque here.
\<close>

record AudioProcessingConfig =
  clear_cache_between_segments :: bool
  output_format :: string
  swiftf0_enabled :: bool
  svc_enabled :: bool
  instrumental_enabled :: bool
  mixing_enabled :: bool
  pipeline_stages :: "string list"




subsection \<open>Jobs and segments (job\_manager.py)\<close>

datatype JobStatus = QUEUED | RUNNING | PAUSED | COMPLETED | FAILED | CANCELLED

fun JobStatus_value :: "JobStatus \<Rightarrow> string" where
  "JobStatus_value QUEUED = ''queued''"
| "JobStatus_value RUNNING = ''running''"
| "JobStatus_value PAUSED = ''paused''"
| "JobStatus_value COMPLETED = ''completed''"
| "JobStatus_value FAILED = ''failed''"
| "JobStatus_value CANCELLED = ''cancelled''"

text \<open>\<^verbatim>\<open>JobStatus(s)\<close>: the member whose value is \<open>s\<close>; \<open>None\<close> is the ValueError.\<close>

definition JobStatus_of_value :: "string \<Rightarrow> JobStatus option" where
  "JobStatus_of_value s =
     List.find (\<lambda>st. JobStatus_value st = s) [QUEUED, RUNNING, PAUSED, COMPLETED, FAILED, CANCELLED]"

text \<open>Truthiness of an optional string: \<^verbatim>\<open>None\<close> and \<^verbatim>\<open>""\<close> are falsy.\<close>

definition truthy :: "string option \<Rightarrow> bool" where
  "truthy p = (case p of None \<Rightarrow> False | Some s \<Rightarrow> s \<noteq> [])"

text \<open>
  The values a segment definition can hold under a key: a definition is a dictionary
  parsed from JSON. The elements of lists and dictionaries play no part and are left out.
\<close>

datatype json = JNull | JBool bool | JNum real | JStr string | JList | JDict

text \<open>The number a value is in Python arithmetic, if it is one; a bool is 0 or 1.\<close>

fun num_of :: "json \<Rightarrow> real option" where
  "num_of (JNum x) = Some x"
| "num_of (JBool b) = Some (if b then 1 else 0)"
| "num_of v = None"

text \<open>
  Python's \<^verbatim>\<open>+\<close> and \<^verbatim>\<open>-\<close> on such values. Numbers add, strings and lists
  concatenate, and every other pair of operands is a TypeError; only numbers subtract. The
  operand types that Python names in the message of the TypeError are not modelled.
\<close>

definition py_add :: "json \<Rightarrow> json \<Rightarrow> exn + json" where
  "py_add a b =
     (case (num_of a, num_of b) of
        (Some x, Some y) \<Rightarrow> Inr (JNum (x + y))
      | _ \<Rightarrow>
          (case (a, b) of
             (JStr u, JStr v) \<Rightarrow> Inr (JStr (u @ v))
           | (JList, JList) \<Rightarrow> Inr JList
           | _ \<Rightarrow> Inl (TypeError ''unsupported operand type(s) for +'')))"

definition py_sub :: "json \<Rightarrow> json \<Rightarrow> exn + real" where
  "py_sub a b =
     (case (num_of a, num_of b) of
        (Some x, Some y) \<Rightarrow> Inr (x - y)
      | _ \<Rightarrow> Inl (TypeError ''unsupported operand type(s) for -''))"

text \<open>
  A segment keeps the start and end values as they were given; \<open>duration\<close> is their
  difference, whose computation raises when one of them is not a number.
\<close>

record AudioSegment =
  index :: nat
  start_time :: json
  end_time :: json
  duration :: real
  original_path :: "string option"
  seg_status :: JobStatus
  preview_path :: "string option"
  result_path :: "string option"

definition AudioSegment_init ::
  "nat \<Rightarrow> json \<Rightarrow> json \<Rightarrow> string option \<Rightarrow> exn + AudioSegment" where
  "AudioSegment_init idx st en orig =
     (case py_sub en st of
        Inl e \<Rightarrow> Inl e
      | Inr d \<Rightarrow>
          Inr \<lparr>index = idx, start_time = st, end_time = en, duration = d,
               original_path = orig, seg_status = QUEUED, preview_path = None,
               result_path = None\<rparr>)"

text \<open>
  A segment definition is a dictionary read with \<^verbatim>\<open>.get\<close>; each key is an optional
  field, \<open>None\<close> when the key is absent. The three times hold any value; the original
  path is taken to be absent, null or a string.
\<close>

record seg_data =
  sd_start_time :: "json option"
  sd_end_time :: "json option"
  sd_duration :: "json option"
  sd_original_path :: "string option"

definition get_or :: "'a option \<Rightarrow> 'a \<Rightarrow> 'a" where
  "get_or v d = (case v of None \<Rightarrow> d | Some x \<Rightarrow> x)"

text \<open>The per-segment result dictionary built by \<^verbatim>\<open>_process_segment\<close>.\<close>

datatype stage_entry =
    StageCompleted "string option"
  | StageSkipped string
  | StageFailed string

record segment_result =
  sr_segment_idx :: nat
  sr_start_time :: "json option"
  sr_end_time :: "json option"
  sr_output_path :: "string option"
  sr_preview_path :: "string option"
  sr_stages :: "(string \<times> stage_entry) list"

text \<open>The results dictionary built by \<^verbatim>\<open>process\<close>.\<close>

record pipeline_results =
  res_job_id :: string
  res_output_path :: "string option"
  res_segments :: "segment_result list"

text \<open>\<open>results = None\<close> is the empty dictionary a job starts with.\<close>

record ProcessingJob =
  job_id :: string
  config :: AudioProcessingConfig
  status :: JobStatus
  progress :: real
  current_stage :: string
  segments_completed :: nat
  segments_total :: nat
  message :: string
  created_at :: nat
  updated_at :: nat
  results :: "pipeline_results option"
  preview_url :: "string option"
  segments :: "AudioSegment list"

text \<open>
  The construction of one segment in \<^verbatim>\<open>ProcessingJob.__init__\<close>. The default of
  \<^verbatim>\<open>end_time\<close>, start plus duration, is an argument of \<^verbatim>\<open>.get\<close> and so is computed
  whether or not the key is present.
\<close>

definition segment_of_data :: "nat \<times> seg_data \<Rightarrow> exn + AudioSegment" where
  "segment_of_data p =
     (case p of (idx, sd) \<Rightarrow>
        (case py_add (get_or (sd_start_time sd) (JNum 0)) (get_or (sd_duration sd) (JNum 10)) of
           Inl e \<Rightarrow> Inl e
         | Inr default_end \<Rightarrow>
             AudioSegment_init idx
               (get_or (sd_start_time sd) (JNum 0))
               (get_or (sd_end_time sd) default_end)
               (sd_original_path sd)))"

text \<open>The loop that builds the segment list; the first segment that raises ends it.\<close>

fun make_segments :: "(nat \<times> seg_data) list \<Rightarrow> exn + AudioSegment list" where
  "make_segments [] = Inr []"
| "make_segments (p # ps) =
     (case segment_of_data p of
        Inl e \<Rightarrow> Inl e
      | Inr seg \<Rightarrow>
          (case make_segments ps of
             Inl e \<Rightarrow> Inl e
           | Inr segs \<Rightarrow> Inr (seg # segs)))"

definition ProcessingJob_init ::
  "string \<Rightarrow> AudioProcessingConfig \<Rightarrow> seg_data list \<Rightarrow> nat \<Rightarrow> exn + ProcessingJob" where
  "ProcessingJob_init jid cfg segs now =
     (case make_segments (List.enumerate 0 segs) of
        Inl e \<Rightarrow> Inl e
      | Inr built \<Rightarrow>
          Inr \<lparr>job_id = jid, config = cfg, status = QUEUED, progress = 0,
               current_stage = ''initialization'', segments_completed = 0,
               segments_total = length segs, message = ''Job created'',
               created_at = now, updated_at = now, results = None, preview_url = None,
               segments = built\<rparr>)"

definition update_progress :: "ProcessingJob \<Rightarrow> real \<Rightarrow> string \<Rightarrow> string \<Rightarrow> nat \<Rightarrow> ProcessingJob" where
  "update_progress job p stage msg now =
     job\<lparr>progress := p, current_stage := stage, message := msg, updated_at := now\<rparr>"

definition is_finished :: "AudioSegment \<Rightarrow> bool" where
  "is_finished seg = (seg_status seg \<in> set [COMPLETED, FAILED])"

definition set_segment ::
  "AudioSegment \<Rightarrow> JobStatus \<Rightarrow> string option \<Rightarrow> string option \<Rightarrow> AudioSegment" where
  "set_segment seg st prev res =
     (let s1 = seg\<lparr>seg_status := st\<rparr>;
          s2 = (if truthy prev then s1\<lparr>preview_path := prev\<rparr> else s1)
      in if truthy res then s2\<lparr>result_path := res\<rparr> else s2)"

text \<open>\<^verbatim>\<open>ProcessingJob.update_segment_status\<close>; the index is a Python int.\<close>

definition job_update_segment_status ::
  "ProcessingJob \<Rightarrow> int \<Rightarrow> JobStatus \<Rightarrow> string option \<Rightarrow> string option \<Rightarrow> nat \<Rightarrow> ProcessingJob" where
  "job_update_segment_status job segment_index st prev res now =
     (if 0 \<le> segment_index \<and> segment_index < int (length (segments job))
      then
        (let segs = (segments job)[nat segment_index :=
                       set_segment (segments job ! nat segment_index) st prev res]
         in job\<lparr>segments := segs,
                segments_completed := length (filter is_finished segs),
                updated_at := now\<rparr>)
      else job)"

subsection \<open>JobManager\<close>

text \<open>
  \<open>jobs\<close> is the dictionary of live job objects, in insertion order; \<open>storage\<close> is the
  storage directory: the last snapshot written to \<^verbatim>\<open><job_id>_metadata.json\<close>, the job's
  \<^verbatim>\<open>to_dict()\<close> image, which the job record itself stands for.
\<close>

record JobManager =
  jobs :: "(string \<times> ProcessingJob) list"
  storage :: "string \<Rightarrow> ProcessingJob option"

definition JobManager_init :: JobManager where
  "JobManager_init = \<lparr>jobs = [], storage = (\<lambda>_. None)\<rparr>"

definition get_job :: "JobManager \<Rightarrow> string \<Rightarrow> ProcessingJob option" where
  "get_job jm jid = map_of (jobs jm) jid"

definition save_job_metadata :: "JobManager \<Rightarrow> ProcessingJob \<Rightarrow> JobManager" where
  "save_job_metadata jm job = jm\<lparr>storage := (storage jm)(job_id job := Some job)\<rparr>"

text \<open>
  The object stored under \<open>jid\<close> has been mutated to \<open>job\<close>; then the snapshot is written.
\<close>

definition store_job :: "JobManager \<Rightarrow> string \<Rightarrow> ProcessingJob \<Rightarrow> JobManager" where
  "store_job jm jid job = save_job_metadata (jm\<lparr>jobs := AList.update jid job (jobs jm)\<rparr>) job"

text \<open>
  \<^verbatim>\<open>create_job\<close>: when the construction of the job raises, nothing has been stored and
  the manager is as it was.
\<close>

definition create_job ::
  "JobManager \<Rightarrow> string \<Rightarrow> nat \<Rightarrow> AudioProcessingConfig \<Rightarrow> seg_data list
     \<Rightarrow> exn + JobManager \<times> string" where
  "create_job jm fresh_id now cfg segs =
     (case ProcessingJob_init fresh_id cfg segs now of
        Inl e \<Rightarrow> Inl e
      | Inr job \<Rightarrow> Inr (store_job jm fresh_id job, fresh_id))"

definition update_job_status ::
  "JobManager \<Rightarrow> string \<Rightarrow> JobStatus \<Rightarrow> string \<Rightarrow> real option \<Rightarrow> JobManager" where
  "update_job_status jm jid st msg prog =
     (case get_job jm jid of
        None \<Rightarrow> jm
      | Some job \<Rightarrow>
          store_job jm jid
            (job\<lparr>status := st, message := msg,
                 progress := (case prog of None \<Rightarrow> progress job | Some p \<Rightarrow> p)\<rparr>))"

definition update_job_progress ::
  "JobManager \<Rightarrow> string \<Rightarrow> real \<Rightarrow> string \<Rightarrow> string \<Rightarrow> nat \<Rightarrow> JobManager" where
  "update_job_progress jm jid p stage msg now =
     (case get_job jm jid of
        None \<Rightarrow> jm
      | Some job \<Rightarrow> store_job jm jid (update_progress job p stage msg now))"

definition update_segment_status ::
  "JobManager \<Rightarrow> string \<Rightarrow> int \<Rightarrow> JobStatus \<Rightarrow> string option \<Rightarrow> string option \<Rightarrow> nat \<Rightarrow> JobManager" where
  "update_segment_status jm jid segment_index st prev res now =
     (case get_job jm jid of
        None \<Rightarrow> jm
      | Some job \<Rightarrow>
          store_job jm jid (job_update_segment_status job segment_index st prev res now))"

definition complete_job :: "JobManager \<Rightarrow> string \<Rightarrow> pipeline_results \<Rightarrow> nat \<Rightarrow> JobManager" where
  "complete_job jm jid res now =
     (case get_job jm jid of
        None \<Rightarrow> jm
      | Some job \<Rightarrow>
          store_job jm jid
            (job\<lparr>status := COMPLETED, progress := 100, current_stage := ''completed'',
                 message := ''Job completed successfully'', results := Some res,
                 updated_at := now\<rparr>))"

definition fail_job :: "JobManager \<Rightarrow> string \<Rightarrow> string \<Rightarrow> nat \<Rightarrow> JobManager" where
  "fail_job jm jid error_message now =
     (case get_job jm jid of
        None \<Rightarrow> jm
      | Some job \<Rightarrow>
          store_job jm jid
            (job\<lparr>status := FAILED, current_stage := ''failed'',
                 message := ''Job failed: '' @ error_message, updated_at := now\<rparr>))"

definition cancel_job :: "JobManager \<Rightarrow> string \<Rightarrow> nat \<Rightarrow> bool \<times> JobManager" where
  "cancel_job jm jid now =
     (case get_job jm jid of
        None \<Rightarrow> (False, jm)
      | Some job \<Rightarrow>
          if status job \<in> set [QUEUED, RUNNING]
          then (True, store_job jm jid
                        (job\<lparr>status := CANCELLED, message := ''Job cancelled'', updated_at := now\<rparr>))
          else (False, jm))"

text \<open>\<^verbatim>\<open>str.lower\<close> on ASCII.\<close>

definition lower_char :: "char \<Rightarrow> char" where
  "lower_char c =
     (if 65 \<le> (of_char c :: nat) \<and> (of_char c :: nat) \<le> 90
      then char_of ((of_char c :: nat) + 32) else c)"

definition lower :: "string \<Rightarrow> string" where
  "lower s = map lower_char s"

text \<open>
  \<^verbatim>\<open>jobs.sort(key=lambda j: j.created_at, reverse=True)\<close>: descending and stable (equal
  keys keep their order), which is the stable ascending sort of the reversed list,
  reversed.
\<close>

definition sort_newest_first :: "ProcessingJob list \<Rightarrow> ProcessingJob list" where
  "sort_newest_first js = rev (sort_key created_at (rev js))"

text \<open>The slice \<^verbatim>\<open>xs[:limit]\<close>; a negative limit counts from the end.\<close>

definition slice_to :: "int \<Rightarrow> 'a list \<Rightarrow> 'a list" where
  "slice_to limit xs =
     (if 0 \<le> limit then take (nat limit) xs else take (nat (int (length xs) + limit)) xs)"

definition list_jobs :: "JobManager \<Rightarrow> int \<Rightarrow> string option \<Rightarrow> ProcessingJob list" where
  "list_jobs jm limit status_filter =
     (let js = map snd (jobs jm);
          js1 = (case status_filter of
                   None \<Rightarrow> js
                 | Some f \<Rightarrow>
                     if f = [] then js
                     else (case JobStatus_of_value (lower f) of
                             Some filter_status \<Rightarrow> filter (\<lambda>j. status j = filter_status) js
                           | None \<Rightarrow> js))
      in slice_to limit (sort_newest_first js1))"

definition delete_job :: "JobManager \<Rightarrow> string \<Rightarrow> bool \<times> JobManager" where
  "delete_job jm jid =
     (if jid \<in> fst ` set (jobs jm)
      then (True, jm\<lparr>jobs := AList.delete jid (jobs jm), storage := (storage jm)(jid := None)\<rparr>)
      else (False, jm))"

subsection \<open>The pipeline processor (processor.py)\<close>

text \<open>
  The stage implementations, the file system, ffmpeg, the GPU cache and the clock are
  outside the program. They act on a world \<open>'w\<close> that the processor threads through its
  calls; a call that can raise returns its outcome together with the world it leaves.
\<close>

record 'w wrapper =
  w_is_available :: "'w \<Rightarrow> exn + bool"
  w_is_loaded :: "'w \<Rightarrow> exn + bool"
  w_load :: "'w \<Rightarrow> (exn + bool) \<times> 'w"
  w_process :: "string \<Rightarrow> string \<Rightarrow> 'w \<Rightarrow> (exn + bool) \<times> 'w"

text \<open>
  \<open>convert_audio\<close> is \<^verbatim>\<open>_convert_audio\<close> (ffmpeg with \<^verbatim>\<open>check=True\<close>), \<open>ffmpeg_concat\<close>
  the concatenation run of \<^verbatim>\<open>_combine_segments\<close> with its list file, and
  \<open>clear_gpu_cache\<close> is \<^verbatim>\<open>_clear_gpu_cache\<close>, which catches its own errors. The three
  wrappers are the arguments of \<^verbatim>\<open>process\<close>.
\<close>

record 'w env =
  temp_dir :: string
  path_exists :: "string \<Rightarrow> 'w \<Rightarrow> bool"
  convert_audio :: "string \<Rightarrow> string \<Rightarrow> 'w \<Rightarrow> exn option \<times> 'w"
  ffmpeg_concat :: "string list \<Rightarrow> string \<Rightarrow> 'w \<Rightarrow> exn option \<times> 'w"
  clear_gpu_cache :: "'w \<Rightarrow> 'w"
  clock :: "'w \<Rightarrow> nat"
  swiftf0_wrapper :: "'w wrapper"
  svc_wrapper :: "'w wrapper"
  instrumental_wrapper :: "'w wrapper"

text \<open>Decimal rendering of an index, for the f-strings.\<close>

fun str_nat :: "nat \<Rightarrow> string" where
  "str_nat n =
     (if n < 10 then [char_of (48 + n)]
      else str_nat (n div 10) @ [char_of (48 + n mod 10)])"

declare str_nat.simps [simp del]

definition path_join :: "string \<Rightarrow> string \<Rightarrow> string" where
  "path_join d f = d @ ''/'' @ f"

text \<open>\<^verbatim>\<open>p and Path(p).exists()\<close>.\<close>

definition usable :: "'w env \<Rightarrow> string option \<Rightarrow> 'w \<Rightarrow> bool" where
  "usable env p w = (case p of None \<Rightarrow> False | Some s \<Rightarrow> s \<noteq> [] \<and> path_exists env s w)"

text \<open>
  The body shared by \<^verbatim>\<open>_process_swiftf0\<close>, \<^verbatim>\<open>_process_svc\<close> and
  \<^verbatim>\<open>_process_instrumental\<close>, which differ in the wrapper, the file suffix and the
  keyword arguments handed to the wrapper. The availability test stands before the
  \<^verbatim>\<open>try\<close>, so an error of \<open>w_is_available\<close> leaves the helper; everything after it is
  caught and answered with the input path.
\<close>

definition run_wrapper ::
  "'w env \<Rightarrow> 'w wrapper \<Rightarrow> string \<Rightarrow> string option \<Rightarrow> string \<Rightarrow> nat \<Rightarrow> 'w
     \<Rightarrow> (exn + string option) \<times> 'w" where
  "run_wrapper env wr name input_path jid segment_idx w =
     (case input_path of
        None \<Rightarrow> (Inr input_path, w)
      | Some inp \<Rightarrow>
          if inp = [] then (Inr input_path, w)
          else
            (case w_is_available wr w of
               Inl e \<Rightarrow> (Inl e, w)
             | Inr available \<Rightarrow>
                 if \<not> available then (Inr input_path, w)
                 else
                   (case w_is_loaded wr w of
                      Inl e \<Rightarrow> (Inr input_path, w)
                    | Inr loaded \<Rightarrow>
                        (case (if loaded then (Inr True, w) else w_load wr w) of
                           (Inl e, w1) \<Rightarrow> (Inr input_path, w1)
                         | (Inr l, w1) \<Rightarrow>
                             (let output_path =
                                    path_join (temp_dir env)
                                      (jid @ ''_segment_'' @ str_nat segment_idx @ ''_'' @ name @ ''.wav'')
                              in case w_process wr inp output_path w1 of
                                   (Inl e, w2) \<Rightarrow> (Inr input_path, w2)
                                 | (Inr r, w2) \<Rightarrow>
                                     (Inr (if r then Some output_path else input_path), w2))))))"

definition process_swiftf0 ::
  "'w env \<Rightarrow> string option \<Rightarrow> string \<Rightarrow> nat \<Rightarrow> 'w \<Rightarrow> (exn + string option) \<times> 'w" where
  "process_swiftf0 env input_path jid segment_idx w =
     run_wrapper env (swiftf0_wrapper env) ''swiftf0'' input_path jid segment_idx w"

definition process_svc ::
  "'w env \<Rightarrow> string option \<Rightarrow> string \<Rightarrow> nat \<Rightarrow> 'w \<Rightarrow> (exn + string option) \<times> 'w" where
  "process_svc env input_path jid segment_idx w =
     run_wrapper env (svc_wrapper env) ''svc'' input_path jid segment_idx w"

definition process_instrumental ::
  "'w env \<Rightarrow> string option \<Rightarrow> string \<Rightarrow> nat \<Rightarrow> 'w \<Rightarrow> (exn + string option) \<times> 'w" where
  "process_instrumental env input_path jid segment_idx w =
     run_wrapper env (instrumental_wrapper env) ''instrumental'' input_path jid segment_idx w"

type_synonym 'w seg_state = "string option \<times> (string \<times> stage_entry) list \<times> 'w"

text \<open>
  What follows a stage helper inside the \<^verbatim>\<open>try\<close> of the stage loop: on return the
  current audio becomes the helper's answer and the stage is recorded completed; on an
  exception the handler records failed and the current audio stays.
\<close>

definition stage_outcome ::
  "string \<Rightarrow> string option \<Rightarrow> (string \<times> stage_entry) list \<Rightarrow> (exn + string option) \<times> 'w
     \<Rightarrow> 'w seg_state" where
  "stage_outcome stage current_audio stages r =
     (case r of
        (Inl e, w') \<Rightarrow> (current_audio, AList.update stage (StageFailed (exn_str e)) stages, w')
      | (Inr out, w') \<Rightarrow> (out, AList.update stage (StageCompleted out) stages, w'))"

text \<open>One iteration of the stage loop of \<^verbatim>\<open>_process_segment\<close>.\<close>

definition run_stage ::
  "'w env \<Rightarrow> AudioProcessingConfig \<Rightarrow> string \<Rightarrow> nat \<Rightarrow> string \<Rightarrow> 'w seg_state \<Rightarrow> 'w seg_state" where
  "run_stage env cfg jid segment_idx stage st =
     (case st of (current_audio, stages, w) \<Rightarrow>
        if stage = ''swiftf0'' \<and> swiftf0_enabled cfg then
          stage_outcome stage current_audio stages (process_swiftf0 env current_audio jid segment_idx w)
        else if stage = ''svc'' \<and> svc_enabled cfg then
          stage_outcome stage current_audio stages (process_svc env current_audio jid segment_idx w)
        else if stage = ''instrumental'' \<and> instrumental_enabled cfg then
          stage_outcome stage current_audio stages
            (process_instrumental env current_audio jid segment_idx w)
        else if stage = ''mixing'' \<and> mixing_enabled cfg then
          (current_audio, AList.update ''mixing'' (StageSkipped ''Requires multiple tracks'') stages, w)
        else (current_audio, stages, w))"

fun run_stages ::
  "'w env \<Rightarrow> AudioProcessingConfig \<Rightarrow> string \<Rightarrow> nat \<Rightarrow> string list \<Rightarrow> 'w seg_state \<Rightarrow> 'w seg_state" where
  "run_stages env cfg jid segment_idx [] st = st"
| "run_stages env cfg jid segment_idx (stage # rest) st =
     run_stages env cfg jid segment_idx rest (run_stage env cfg jid segment_idx stage st)"

definition process_segment ::
  "'w env \<Rightarrow> AudioProcessingConfig \<Rightarrow> string \<Rightarrow> nat \<Rightarrow> seg_data \<Rightarrow> 'w
     \<Rightarrow> (exn + segment_result) \<times> 'w" where
  "process_segment env cfg jid segment_idx sd w =
     (let original_path = (if usable env (sd_original_path sd) w then sd_original_path sd else None)
      in case run_stages env cfg jid segment_idx (pipeline_stages cfg) (original_path, [], w) of
           (current_audio, stages, w1) \<Rightarrow>
             (let result = \<lparr>sr_segment_idx = segment_idx, sr_start_time = sd_start_time sd,
                            sr_end_time = sd_end_time sd, sr_output_path = None,
                            sr_preview_path = None, sr_stages = stages\<rparr>
              in case current_audio of
                   None \<Rightarrow> (Inr result, w1)
                 | Some cur \<Rightarrow>
                     if usable env current_audio w1
                     then
                       (let segment_output =
                              path_join (temp_dir env)
                                (jid @ ''_segment_'' @ str_nat segment_idx @ ''_final.wav'')
                        in case convert_audio env cur segment_output w1 of
                             (Some e, w2) \<Rightarrow> (Inl e, w2)
                           | (None, w2) \<Rightarrow>
                               (Inr (result\<lparr>sr_output_path := Some segment_output,
                                            sr_preview_path := Some segment_output\<rparr>), w2))
                     else (Inr result, w1)))"

definition combine_segments ::
  "'w env \<Rightarrow> segment_result list \<Rightarrow> AudioProcessingConfig \<Rightarrow> string \<Rightarrow> 'w \<Rightarrow> (exn + string) \<times> 'w" where
  "combine_segments env segs cfg jid w =
     (let valid_segments = filter (\<lambda>s. truthy (sr_output_path s)) segs
      in if valid_segments = [] then (Inl (ValueError ''No valid segments to combine''), w)
         else
           (let output_path = path_join (temp_dir env) (jid @ ''_combined.'' @ output_format cfg)
            in case ffmpeg_concat env (List.map_filter sr_output_path valid_segments) output_path w of
                 (Some e, w') \<Rightarrow> (Inl e, w')
               | (None, w') \<Rightarrow> (Inr output_path, w')))"

type_synonym 'w run_state = "JobManager \<times> 'w \<times> segment_result list"

text \<open>The local \<^verbatim>\<open>segment_progress = (segment_idx / len(segments)) * 100\<close>.\<close>

definition segment_progress :: "nat \<Rightarrow> nat \<Rightarrow> real" where
  "segment_progress segment_idx n = real segment_idx / real n * 100"

text \<open>
  The body of the segment loop of \<^verbatim>\<open>process\<close> for the pair \<open>(segment_idx, segment_data)\<close>
  of \<^verbatim>\<open>enumerate(segments)\<close>; \<open>n\<close> is \<^verbatim>\<open>len(segments)\<close>. \<open>Some e\<close> is an exception that
  leaves the loop.
\<close>

definition process_iteration ::
  "'w env \<Rightarrow> AudioProcessingConfig \<Rightarrow> string \<Rightarrow> nat \<Rightarrow> nat \<times> seg_data \<Rightarrow> 'w run_state
     \<Rightarrow> exn option \<times> 'w run_state" where
  "process_iteration env cfg jid n p st =
     (case (p, st) of ((segment_idx, sd), (jm, w, rs)) \<Rightarrow>
        (let jm1 = update_job_progress jm jid (segment_progress segment_idx n)
                     (''processing_segment_'' @ str_nat segment_idx)
                     (''Processing segment '' @ str_nat (segment_idx + 1) @ ''/'' @ str_nat n)
                     (clock env w);
             jm2 = update_segment_status jm1 jid (int segment_idx) RUNNING None None (clock env w)
         in case process_segment env cfg jid segment_idx sd w of
              (Inl e, w1) \<Rightarrow> (Some e, (jm2, w1, rs))
            | (Inr segment_result, w1) \<Rightarrow>
                (let jm3 = update_segment_status jm2 jid (int segment_idx) COMPLETED
                             (sr_preview_path segment_result) (sr_output_path segment_result)
                             (clock env w1);
                     w2 = (if clear_cache_between_segments cfg then clear_gpu_cache env w1 else w1)
                 in (None, (jm3, w2, rs @ [segment_result])))))"

fun process_loop ::
  "'w env \<Rightarrow> AudioProcessingConfig \<Rightarrow> string \<Rightarrow> nat \<Rightarrow> (nat \<times> seg_data) list \<Rightarrow> 'w run_state
     \<Rightarrow> exn option \<times> 'w run_state" where
  "process_loop env cfg jid n [] st = (None, st)"
| "process_loop env cfg jid n (p # ps) st =
     (case process_iteration env cfg jid n p st of
        (Some e, st') \<Rightarrow> (Some e, st')
      | (None, st') \<Rightarrow> process_loop env cfg jid n ps st')"

text \<open>\<^verbatim>\<open>AudioPipelineProcessor.process\<close>: the results, or the exception it re-raises.\<close>

definition process ::
  "'w env \<Rightarrow> AudioProcessingConfig \<Rightarrow> string \<Rightarrow> seg_data list \<Rightarrow> JobManager \<times> 'w
     \<Rightarrow> (exn + pipeline_results) \<times> JobManager \<times> 'w" where
  "process env cfg jid segs s =
     (case s of (jm, w) \<Rightarrow>
        (case process_loop env cfg jid (length segs) (List.enumerate 0 segs) (jm, w, []) of
           (Some e, (jm1, w1, rs)) \<Rightarrow> (Inl e, jm1, w1)
         | (None, (jm1, w1, rs)) \<Rightarrow>
             (let jm2 = update_job_progress jm1 jid 90 ''combining_segments''
                          ''Combining processed segments'' (clock env w1)
              in case combine_segments env rs cfg jid w1 of
                   (Inl e, w2) \<Rightarrow> (Inl e, jm2, w2)
                 | (Inr final_output, w2) \<Rightarrow>
                     (let jm3 = update_job_progress jm2 jid 100 ''completed''
                                  ''Processing completed successfully'' (clock env w2)
                      in (Inr \<lparr>res_job_id = jid, res_output_path = Some final_output,
                               res_segments = rs\<rparr>, jm3, w2)))))"

text \<open>\<^verbatim>\<open>process_job\<close> of main.py, the background task of a job.\<close>

definition process_job ::
  "'w env \<Rightarrow> string \<Rightarrow> AudioProcessingConfig \<Rightarrow> seg_data list \<Rightarrow> JobManager \<times> 'w \<Rightarrow> JobManager \<times> 'w" where
  "process_job env jid cfg segs s =
     (case s of (jm, w) \<Rightarrow>
        (case process env cfg jid segs (update_job_status jm jid RUNNING ''Starting pipeline'' None, w) of
           (Inr res, jm1, w1) \<Rightarrow> (complete_job jm1 jid res (clock env w1), w1)
         | (Inl e, jm1, w1) \<Rightarrow> (fail_job jm1 jid (exn_str e) (clock env w1), w1)))"

subsection \<open>Operation sequences and the counting invariant\<close>

text \<open>
  A call of a JobManager operation, with its arguments; \<open>run_ops\<close> is the manager
  after a sequence of calls on a new manager (a call of \<open>create_job\<close> that raises leaves
  the manager as it was). The states \<open>run_ops ops\<close> are the
  observation points of a manager.
\<close>

datatype jm_op =
    CreateJob string nat AudioProcessingConfig "seg_data list"
  | UpdateJobStatus string JobStatus string "real option"
  | UpdateJobProgress string real string string nat
  | UpdateSegmentStatus string int JobStatus "string option" "string option" nat
  | CompleteJob string pipeline_results nat
  | FailJob string string nat
  | CancelJob string nat
  | DeleteJob string

fun apply_op :: "JobManager \<Rightarrow> jm_op \<Rightarrow> JobManager" where
  "apply_op jm (CreateJob fresh_id now cfg segs) =
     (case create_job jm fresh_id now cfg segs of Inl e \<Rightarrow> jm | Inr (jm', jid) \<Rightarrow> jm')"
| "apply_op jm (UpdateJobStatus jid st msg prog) = update_job_status jm jid st msg prog"
| "apply_op jm (UpdateJobProgress jid p stage msg now) = update_job_progress jm jid p stage msg now"
| "apply_op jm (UpdateSegmentStatus jid i st prev res now) =
     update_segment_status jm jid i st prev res now"
| "apply_op jm (CompleteJob jid res now) = complete_job jm jid res now"
| "apply_op jm (FailJob jid err now) = fail_job jm jid err now"
| "apply_op jm (CancelJob jid now) = snd (cancel_job jm jid now)"
| "apply_op jm (DeleteJob jid) = snd (delete_job jm jid)"

definition run_ops :: "jm_op list \<Rightarrow> JobManager" where
  "run_ops ops = foldl apply_op JobManager_init ops"

definition job_inv :: "ProcessingJob \<Rightarrow> bool" where
  "job_inv job = (segments_completed job = length (filter is_finished (segments job)))"

definition jm_inv :: "JobManager \<Rightarrow> bool" where
  "jm_inv jm = list_all (\<lambda>p. job_inv (snd p)) (jobs jm)"

subsection \<open>Example data\<close>

text \<open>The defaults of \<^verbatim>\<open>AudioProcessingConfig\<close>.\<close>

definition default_config :: AudioProcessingConfig where
  "default_config =
     \<lparr>clear_cache_between_segments = True, output_format = ''wav'',
      swiftf0_enabled = True, svc_enabled = True, instrumental_enabled = True,
      mixing_enabled = True, pipeline_stages = [''swiftf0'', ''svc'', ''instrumental'', ''mixing'']\<rparr>"

text \<open>A manager whose only job has failed.\<close>

definition failed_example :: JobManager where
  "failed_example =
     run_ops [CreateJob ''job'' 0 default_config [], FailJob ''job'' ''boom'' 1]"

text \<open>Two segments; the first is completed, the second running, and index 7 is out of range.\<close>

definition c9_ops :: "jm_op list" where
  "c9_ops =
     [CreateJob ''job'' 0 default_config
        [\<lparr>sd_start_time = Some (JNum 0), sd_end_time = Some (JNum 10), sd_duration = None,
          sd_original_path = None\<rparr>,
         \<lparr>sd_start_time = Some (JNum 10), sd_end_time = Some (JNum 20), sd_duration = None,
          sd_original_path = None\<rparr>],
      UpdateSegmentStatus ''job'' 0 COMPLETED None (Some ''a.wav'') 1,
      UpdateSegmentStatus ''job'' 1 RUNNING None None 2,
      UpdateSegmentStatus ''job'' 7 FAILED None None 3]"

text \<open>Two jobs, created at instants 1 and 2.\<close>

definition two_jobs :: JobManager where
  "two_jobs =
     run_ops [CreateJob ''a'' 1 default_config [], CreateJob ''b'' 2 default_config []]"

text \<open>
  An example world: the list of files that exist. ffmpeg succeeds and writes its output;
  the clock is the number of files; a stage implementation is given by whether it is
  available and whether its \<open>process\<close> raises.
\<close>

definition stub_wrapper :: "bool \<Rightarrow> bool \<Rightarrow> string list wrapper" where
  "stub_wrapper available crashes =
     \<lparr>w_is_available = (\<lambda>w. Inr available),
      w_is_loaded = (\<lambda>w. Inr True),
      w_load = (\<lambda>w. (Inr True, w)),
      w_process = (\<lambda>inp out w.
         if crashes then (Inl (RuntimeError ''model crashed''), w) else (Inr True, out # w))\<rparr>"

definition example_env :: "string list wrapper \<Rightarrow> string list env" where
  "example_env wr =
     \<lparr>temp_dir = ''audio_temp'',
      path_exists = (\<lambda>p w. p \<in> set w),
      convert_audio = (\<lambda>inp out w. (None, out # w)),
      ffmpeg_concat = (\<lambda>inps out w. (None, out # w)),
      clear_gpu_cache = (\<lambda>w. w),
      clock = (\<lambda>w. length w),
      swiftf0_wrapper = wr, svc_wrapper = wr, instrumental_wrapper = wr\<rparr>"

definition seg_at :: "real \<Rightarrow> real \<Rightarrow> string option \<Rightarrow> seg_data" where
  "seg_at st en orig =
     \<lparr>sd_start_time = Some (JNum st), sd_end_time = Some (JNum en), sd_duration = None,
      sd_original_path = orig\<rparr>"

definition five_segments :: "seg_data list" where
  "five_segments =
     [seg_at 0 10 (Some ''s0.wav''), seg_at 10 20 (Some ''s1.wav''), seg_at 20 30 (Some ''s2.wav''),
      seg_at 30 40 (Some ''s3.wav''), seg_at 40 50 (Some ''s4.wav'')]"

definition five_files :: "string list" where
  "five_files = [''s0.wav'', ''s1.wav'', ''s2.wav'', ''s3.wav'', ''s4.wav'']"

definition running_job :: JobManager where
  "running_job =
     run_ops [CreateJob ''job'' 0 default_config five_segments,
              UpdateJobStatus ''job'' RUNNING ''Starting pipeline'' None]"

text \<open>The job after the first two calls of an iteration of the segment loop.\<close>

definition job_started :: "'w env \<Rightarrow> nat \<Rightarrow> nat \<Rightarrow> 'w \<Rightarrow> ProcessingJob \<Rightarrow> ProcessingJob" where
  "job_started env n i w job =
     job_update_segment_status
       (update_progress job (segment_progress i n)
          (''processing_segment_'' @ str_nat i)
          (''Processing segment '' @ str_nat (i + 1) @ ''/'' @ str_nat n) (clock env w))
       (int i) RUNNING None None (clock env w)"

text \<open>Three iterations, a cancellation, then the loop goes on with segments 3 and 4.\<close>

definition after_three :: "JobManager \<times> string list \<times> segment_result list" where
  "after_three =
     snd (process_loop (example_env (stub_wrapper False False)) default_config ''job'' 5
            (take 3 (List.enumerate 0 five_segments)) (running_job, five_files, []))"

definition cancelled_after_three :: "bool \<times> JobManager" where
  "cancelled_after_three = cancel_job (fst after_three) ''job'' 99"

definition after_five :: "exn option \<times> JobManager \<times> string list \<times> segment_result list" where
  "after_five =
     process_loop (example_env (stub_wrapper False False)) default_config ''job'' 5
       (drop 3 (List.enumerate 0 five_segments))
       (snd cancelled_after_three, fst (snd after_three), snd (snd after_three))"



text \<open>The same job as created, and the state when its segment loop has ended.\<close>

definition no_audio_created :: JobManager where
  "no_audio_created = run_ops [CreateJob ''job'' 0 default_config [seg_at 0 10 None]]"

definition no_audio_loop :: "exn option \<times> JobManager \<times> string list \<times> segment_result list" where
  "no_audio_loop =
     process_loop (example_env (stub_wrapper True False)) default_config ''job'' (length [seg_at 0 10 None])
       (List.enumerate 0 [seg_at 0 10 None])
       (update_job_status no_audio_created ''job'' RUNNING ''Starting pipeline'' None, [], [])"








section \<open>Auxiliary facts\<close>

lemma get_job_store_job:
  "get_job (store_job jm jid job) k = (if k = jid then Some job else get_job jm k)"
  by (simp add: get_job_def store_job_def save_job_metadata_def update_conv')


lemma jobs_store_job:
  "jobs (store_job jm jid job) = AList.update jid job (jobs jm)"
  by (simp add: store_job_def save_job_metadata_def)

lemma failed_example_job:
  "map_option (\<lambda>j. (status j, progress j)) (get_job failed_example ''job'') = Some (FAILED, 0)"
  by code_simp

lemma get_job_update_job_progress:
  "get_job (update_job_progress jm jid p stage msg now) k =
     (if k = jid then map_option (\<lambda>job. update_progress job p stage msg now) (get_job jm jid)
      else get_job jm k)"
  by (simp add: update_job_progress_def get_job_store_job split: option.splits)

lemma get_job_update_segment_status:
  "get_job (update_segment_status jm jid i st prev res now) k =
     (if k = jid
      then map_option (\<lambda>job. job_update_segment_status job i st prev res now) (get_job jm jid)
      else get_job jm k)"
  by (simp add: update_segment_status_def get_job_store_job split: option.splits)

lemma get_job_update_job_status:
  "get_job (update_job_status jm jid st msg prog) k =
     (if k = jid
      then map_option (\<lambda>job. job\<lparr>status := st, message := msg,
                 progress := (case prog of None \<Rightarrow> progress job | Some p \<Rightarrow> p)\<rparr>) (get_job jm jid)
      else get_job jm k)"
  by (simp add: update_job_status_def get_job_store_job split: option.splits)

lemma job_update_segment_status_fields:
  "status (job_update_segment_status job i st prev res now) = status job"
  "progress (job_update_segment_status job i st prev res now) = progress job"
  "results (job_update_segment_status job i st prev res now) = results job"
  "message (job_update_segment_status job i st prev res now) = message job"
  "length (segments (job_update_segment_status job i st prev res now)) = length (segments job)"
  by (simp_all add: job_update_segment_status_def Let_def)

lemma jm_inv_get_job: "jm_inv jm \<Longrightarrow> get_job jm jid = Some job \<Longrightarrow> job_inv job"
  by (auto simp add: jm_inv_def get_job_def list_all_iff dest!: map_of_SomeD)

lemma list_all_update:
  "list_all P al \<Longrightarrow> P (k, v) \<Longrightarrow> list_all P (AList.update k v al)"
  by (induction al) auto

lemma jm_inv_store_job: "jm_inv jm \<Longrightarrow> job_inv job \<Longrightarrow> jm_inv (store_job jm jid job)"
  by (simp add: jm_inv_def jobs_store_job list_all_update)

lemma make_segments_queued:
  "make_segments ps = Inr built \<Longrightarrow> filter is_finished built = [] \<and> length built = length ps"
proof (induction ps arbitrary: built)
  case Nil
  then show ?case by simp
next
  case (Cons p ps)
  then show ?case
    by (auto simp add: is_finished_def segment_of_data_def AudioSegment_init_def
        split: sum.splits prod.splits)
qed

lemma job_inv_init: "ProcessingJob_init jid cfg segs now = Inr job \<Longrightarrow> job_inv job"
  by (auto simp add: job_inv_def ProcessingJob_init_def dest: make_segments_queued split: sum.splits)

lemma job_inv_update_segment:
  "job_inv job \<Longrightarrow> job_inv (job_update_segment_status job i st prev res now)"
  by (simp add: job_inv_def job_update_segment_status_def Let_def)

lemma jm_inv_delete: "jm_inv jm \<Longrightarrow> jm_inv (snd (delete_job jm jid))"
  by (auto simp add: jm_inv_def delete_job_def AList.delete_eq list_all_iff)

lemma jm_inv_apply_op: "jm_inv jm \<Longrightarrow> jm_inv (apply_op jm op)"
proof (cases op)
  case (CreateJob fresh_id now cfg segs)
  assume "jm_inv jm"
  then show ?thesis
    by (auto simp add: CreateJob create_job_def jm_inv_store_job job_inv_init split: sum.splits)
next
  case (UpdateJobStatus jid st msg prog)
  assume inv: "jm_inv jm"
  show ?thesis
  proof (cases "get_job jm jid")
    case None
    with inv show ?thesis by (simp add: UpdateJobStatus update_job_status_def)
  next
    case (Some job)
    from jm_inv_get_job [OF inv Some] have "job_inv job" .
    then have "job_inv (job\<lparr>status := st, message := msg,
                 progress := (case prog of None \<Rightarrow> progress job | Some p \<Rightarrow> p)\<rparr>)"
      by (simp add: job_inv_def)
    with inv Some show ?thesis
      by (simp add: UpdateJobStatus update_job_status_def jm_inv_store_job)
  qed
next
  case (UpdateJobProgress jid p stage msg now)
  assume inv: "jm_inv jm"
  show ?thesis
  proof (cases "get_job jm jid")
    case None
    with inv show ?thesis by (simp add: UpdateJobProgress update_job_progress_def)
  next
    case (Some job)
    from jm_inv_get_job [OF inv Some] have "job_inv (update_progress job p stage msg now)"
      by (simp add: job_inv_def update_progress_def)
    with inv Some show ?thesis
      by (simp add: UpdateJobProgress update_job_progress_def jm_inv_store_job)
  qed
next
  case (UpdateSegmentStatus jid i st prev res now)
  assume inv: "jm_inv jm"
  show ?thesis
  proof (cases "get_job jm jid")
    case None
    with inv show ?thesis by (simp add: UpdateSegmentStatus update_segment_status_def)
  next
    case (Some job)
    from jm_inv_get_job [OF inv Some]
    have "job_inv (job_update_segment_status job i st prev res now)"
      by (rule job_inv_update_segment)
    with inv Some show ?thesis
      by (simp add: UpdateSegmentStatus update_segment_status_def jm_inv_store_job)
  qed
next
  case (CompleteJob jid res now)
  assume inv: "jm_inv jm"
  show ?thesis
  proof (cases "get_job jm jid")
    case None
    with inv show ?thesis by (simp add: CompleteJob complete_job_def)
  next
    case (Some job)
    from jm_inv_get_job [OF inv Some]
    have "job_inv (job\<lparr>status := COMPLETED, progress := 100, current_stage := ''completed'',
                 message := ''Job completed successfully'', results := Some res,
                 updated_at := now\<rparr>)"
      by (simp add: job_inv_def)
    with inv Some show ?thesis
      by (simp add: CompleteJob complete_job_def jm_inv_store_job)
  qed
next
  case (FailJob jid err now)
  assume inv: "jm_inv jm"
  show ?thesis
  proof (cases "get_job jm jid")
    case None
    with inv show ?thesis by (simp add: FailJob fail_job_def)
  next
    case (Some job)
    from jm_inv_get_job [OF inv Some]
    have "job_inv (job\<lparr>status := FAILED, current_stage := ''failed'',
                 message := ''Job failed: '' @ err, updated_at := now\<rparr>)"
      by (simp add: job_inv_def)
    with inv Some show ?thesis
      by (simp add: FailJob fail_job_def jm_inv_store_job)
  qed
next
  case (CancelJob jid now)
  assume inv: "jm_inv jm"
  show ?thesis
  proof (cases "get_job jm jid")
    case None
    with inv show ?thesis by (simp add: CancelJob cancel_job_def)
  next
    case (Some job)
    from jm_inv_get_job [OF inv Some]
    have "job_inv (job\<lparr>status := CANCELLED, message := ''Job cancelled'', updated_at := now\<rparr>)"
      by (simp add: job_inv_def)
    with inv Some show ?thesis
      by (simp add: CancelJob cancel_job_def jm_inv_store_job)
  qed
next
  case (DeleteJob jid)
  assume "jm_inv jm"
  then show ?thesis by (simp add: DeleteJob jm_inv_delete)
qed

lemma jm_inv_foldl: "jm_inv jm \<Longrightarrow> jm_inv (foldl apply_op jm ops)"
  by (induction ops arbitrary: jm) (simp_all add: jm_inv_apply_op)

lemma c9_ops_job:
  "map_option (\<lambda>j. (segments_completed j, map seg_status (segments j))) (get_job (run_ops c9_ops) ''job'')
     = Some (1, [COMPLETED, RUNNING])"
  by code_simp

lemma bogus_is_no_status: "JobStatus_of_value (lower ''Bogus'') = None"
  by code_simp

lemma set_segment_fields:
  "seg_status (set_segment seg st prev res) = st"
  "result_path (set_segment seg st prev res) = (if truthy res then res else result_path seg)"
  "preview_path (set_segment seg st prev res) = (if truthy prev then prev else preview_path seg)"
  by (simp_all add: set_segment_def Let_def)

lemma segments_job_update_segment_status:
  "segments (job_update_segment_status job i st prev res now) =
     (if 0 \<le> i \<and> i < int (length (segments job))
      then (segments job)[nat i := set_segment (segments job ! nat i) st prev res]
      else segments job)"
  by (simp add: job_update_segment_status_def Let_def)

lemma update_progress_fields:
  "status (update_progress job p stage msg now) = status job"
  "results (update_progress job p stage msg now) = results job"
  "segments (update_progress job p stage msg now) = segments job"
  "progress (update_progress job p stage msg now) = p"
  by (simp_all add: update_progress_def)

lemma process_iteration_job:
  assumes "process_iteration env cfg jid n (i, sd) (jm, w, rs) = (r, (jm', w', rs'))"
    and "get_job jm jid = Some job"
  shows "case process_segment env cfg jid i sd w of
           (Inl e, w1) \<Rightarrow> r = Some e \<and> rs' = rs \<and> get_job jm' jid = Some (job_started env n i w job)
         | (Inr sr, w1) \<Rightarrow> r = None \<and> rs' = rs @ [sr] \<and>
             get_job jm' jid = Some (job_update_segment_status (job_started env n i w job) (int i)
                                  COMPLETED (sr_preview_path sr) (sr_output_path sr) (clock env w1))"
  using assms
  by (auto simp add: process_iteration_def Let_def get_job_update_segment_status
      get_job_update_job_progress job_started_def split: prod.splits sum.splits)

lemma job_started_fields:
  "status (job_started env n i w job) = status job"
  "results (job_started env n i w job) = results job"
  "progress (job_started env n i w job) = segment_progress i n"
  "length (segments (job_started env n i w job)) = length (segments job)"
  "k \<noteq> i \<Longrightarrow> segments (job_started env n i w job) ! k = segments job ! k"
  "result_path (segments (job_started env n i w job) ! i) = result_path (segments job ! i)"
  by (auto simp add: job_started_def job_update_segment_status_fields update_progress_fields
      segments_job_update_segment_status set_segment_fields truthy_def nth_list_update)

lemma process_iteration_frame:
  assumes "process_iteration env cfg jid n (i, sd) (jm, w, rs) = (r, (jm', w', rs'))"
    and "get_job jm jid = Some job"
  shows "\<exists>job'. get_job jm' jid = Some job' \<and> status job' = status job \<and> results job' = results job
           \<and> length (segments job') = length (segments job)
           \<and> (\<forall>k. k \<noteq> i \<longrightarrow> segments job' ! k = segments job ! k)
           \<and> (r = None \<longrightarrow> i < length (segments job) \<longrightarrow> seg_status (segments job' ! i) = COMPLETED)"
  using process_iteration_job [OF assms]
  by (auto simp add: job_started_fields job_update_segment_status_fields
      segments_job_update_segment_status set_segment_fields nth_list_update
      split: prod.splits sum.splits)

lemma process_loop_frame:
  assumes "process_loop env cfg jid n (List.enumerate k segs) (jm, w, rs) = (r, (jm', w', rs'))"
    and "get_job jm jid = Some job"
  shows "\<exists>job'. get_job jm' jid = Some job' \<and> status job' = status job \<and> results job' = results job
           \<and> length (segments job') = length (segments job)
           \<and> (\<forall>i. i < k \<longrightarrow> segments job' ! i = segments job ! i)
           \<and> (r = None \<longrightarrow> k + length segs \<le> length (segments job) \<longrightarrow>
                (\<forall>i. k \<le> i \<and> i < k + length segs \<longrightarrow> seg_status (segments job' ! i) = COMPLETED))"
  using assms
proof (induction segs arbitrary: k jm w rs job)
  case Nil
  then show ?case by auto
next
  case (Cons sd segs)
  obtain r1 jm1 w1 rs1 where it: "process_iteration env cfg jid n (k, sd) (jm, w, rs) = (r1, (jm1, w1, rs1))"
    by (metis prod_cases3 surj_pair)
  from process_iteration_frame [OF it Cons.prems(2)] obtain job1 where
    j1: "get_job jm1 jid = Some job1" "status job1 = status job" "results job1 = results job"
      "length (segments job1) = length (segments job)"
      "\<forall>i. i \<noteq> k \<longrightarrow> segments job1 ! i = segments job ! i"
      "r1 = None \<longrightarrow> k < length (segments job) \<longrightarrow> seg_status (segments job1 ! k) = COMPLETED"
    by blast
  show ?case
  proof (cases r1)
    case (Some e)
    with Cons.prems(1) it have "r = Some e" "jm' = jm1" by simp_all
    with j1 show ?thesis by auto
  next
    case None
    with Cons.prems(1) it have
      rest: "process_loop env cfg jid n (List.enumerate (Suc k) segs) (jm1, w1, rs1) = (r, (jm', w', rs'))"
      by simp
    from Cons.IH [OF rest j1(1)] obtain job' where
      j': "get_job jm' jid = Some job'" "status job' = status job1" "results job' = results job1"
        "length (segments job') = length (segments job1)"
        "\<forall>i. i < Suc k \<longrightarrow> segments job' ! i = segments job1 ! i"
        "r = None \<longrightarrow> Suc k + length segs \<le> length (segments job1) \<longrightarrow>
           (\<forall>i. Suc k \<le> i \<and> i < Suc k + length segs \<longrightarrow> seg_status (segments job' ! i) = COMPLETED)"
      by blast
    have "seg_status (segments job' ! i) = COMPLETED"
      if "r = None" "k + length (sd # segs) \<le> length (segments job)" "k \<le> i" "i < k + length (sd # segs)" for i
    proof (cases "i = k")
      case True
      with j'(5) have "segments job' ! i = segments job1 ! k" by simp
      with j1(6) None that show ?thesis by simp
    next
      case False
      with that j'(6) j1(4) show ?thesis by simp
    qed
    moreover have "segments job' ! i = segments job ! i" if "i < k" for i
      using that j'(5) j1(5) by simp
    ultimately show ?thesis
      using j' j1 by auto
  qed
qed

lemma get_job_cancel_running:
  assumes "get_job jm jid = Some job" and "status job = RUNNING"
  shows "fst (cancel_job jm jid now)"
    and "get_job (snd (cancel_job jm jid now)) jid =
           Some (job\<lparr>status := CANCELLED, message := ''Job cancelled'', updated_at := now\<rparr>)"
  using assms by (simp_all add: cancel_job_def get_job_store_job)

lemma after_three_running:
  "map_option (\<lambda>j. (status j, length (segments j))) (get_job (fst after_three) ''job'') = Some (RUNNING, 5)"
  by code_simp

lemma after_five_loop:
  "process_loop (example_env (stub_wrapper False False)) default_config ''job'' 5
     (List.enumerate 3 (drop 3 five_segments))
     (snd (cancel_job (fst after_three) ''job'' 99), fst (snd after_three), snd (snd after_three))
   = (None, (fst (snd after_five), fst (snd (snd after_five)), snd (snd (snd after_five))))"
proof -
  have "fst after_five = None" by code_simp
  moreover have "drop 3 (List.enumerate 0 five_segments) = List.enumerate 3 (drop 3 five_segments)"
    by (simp add: five_segments_def)
  ultimately show ?thesis
    by (simp add: after_five_def cancelled_after_three_def prod_eq_iff)
qed




lemma get_job_fail_job:
  "get_job (fail_job jm jid err now) jid =
     map_option (\<lambda>job. job\<lparr>status := FAILED, current_stage := ''failed'',
                 message := ''Job failed: '' @ err, updated_at := now\<rparr>) (get_job jm jid)"
  by (simp add: fail_job_def get_job_store_job split: option.splits)

lemma combine_segments_no_valid:
  "filter (\<lambda>s. truthy (sr_output_path s)) rs = [] \<Longrightarrow>
     combine_segments env rs cfg jid w = (Inl (ValueError ''No valid segments to combine''), w)"
  by (simp add: combine_segments_def)

lemma no_audio_loop_facts:
  "fst no_audio_loop = None"
  "filter (\<lambda>s. truthy (sr_output_path s)) (snd (snd (snd no_audio_loop))) = []"
  "map_option results (get_job no_audio_created ''job'') = Some None"
  by code_simp+




text \<open>
  After the loop \<^verbatim>\<open>process\<close> reports the constant 90; with eleven segments the last
  value of the loop is already above it.
\<close>

lemma ninety_below_last_of_eleven: "90 < segment_progress 10 11"
  by (simp add: segment_progress_def)














section \<open>The claims\<close>

text \<open>
  Claim C1, as amended. For a job whose status is Failed or Cancelled, \<open>cancel_job\<close> is
  rejected: it returns False and leaves the manager, and so the job's status, unchanged.
  \<open>update_job_status\<close>, \<open>complete_job\<close> and \<open>fail_job\<close> have no guard on the current
  status: they set the status to the given one, to Completed and to Failed.
\<close>

theorem terminal_job_only_cancel_rejected:
  assumes "get_job jm jid = Some job"
    and "status job = FAILED \<or> status job = CANCELLED"
  shows "cancel_job jm jid now = (False, jm)
       \<and> map_option status (get_job (update_job_status jm jid st msg prog) jid) = Some st
       \<and> map_option status (get_job (complete_job jm jid res now) jid) = Some COMPLETED
       \<and> map_option status (get_job (fail_job jm jid err now) jid) = Some FAILED"
  using assms
  by (auto simp add: cancel_job_def update_job_status_def complete_job_def fail_job_def
      get_job_store_job)

theorem terminal_job_only_cancel_rejected_witness:
  "cancel_job failed_example ''job'' 2 = (False, failed_example)
   \<and> map_option status (get_job (update_job_status failed_example ''job'' RUNNING ''m'' None) ''job'') = Some RUNNING
   \<and> map_option status (get_job (complete_job failed_example ''job'' \<lparr>res_job_id = ''job'', res_output_path = None, res_segments = []\<rparr> 2) ''job'') = Some COMPLETED
   \<and> map_option status (get_job (fail_job failed_example ''job'' ''again'' 2) ''job'') = Some FAILED"
proof -
  from failed_example_job obtain job where
    "get_job failed_example ''job'' = Some job" "status job = FAILED"
    by auto
  from terminal_job_only_cancel_rejected [OF this(1), of 2 RUNNING "''m''" None
      "\<lparr>res_job_id = ''job'', res_output_path = None, res_segments = []\<rparr>" "''again''"] this(2)
  show ?thesis by simp
qed

text \<open>
  The claim C1 as stated fails: a job that has failed is set running again by
  \<open>update_job_status\<close>, the first call of \<open>process_job\<close>.
\<close>

theorem terminal_status_counterexample:
  "map_option status (get_job failed_example ''job'') = Some FAILED
   \<and> map_option status
       (get_job (update_job_status failed_example ''job'' RUNNING ''Starting pipeline'' None) ''job'')
     = Some RUNNING"
  using failed_example_job by (auto simp add: get_job_update_job_status)




text \<open>
  Claim C9. At every observation point of a manager, that is after any sequence of
  JobManager operations on a new manager, every job's \<open>segments_completed\<close> is the number
  of its segments whose status is Completed or Failed.
\<close>

theorem segments_completed_counts_finished:
  assumes "get_job (run_ops ops) jid = Some job"
  shows "segments_completed job =
         length (filter (\<lambda>s. seg_status s = COMPLETED \<or> seg_status s = FAILED) (segments job))"
proof -
  have "jm_inv JobManager_init"
    by (simp add: jm_inv_def JobManager_init_def)
  then have "jm_inv (run_ops ops)"
    unfolding run_ops_def by (rule jm_inv_foldl)
  moreover have "is_finished = (\<lambda>s. seg_status s = COMPLETED \<or> seg_status s = FAILED)"
    by (auto simp add: is_finished_def fun_eq_iff)
  ultimately show ?thesis
    using jm_inv_get_job [OF _ assms] by (simp add: job_inv_def)
qed

theorem segments_completed_counts_finished_witness:
  "map_option
     (\<lambda>j. (map seg_status (segments j), segments_completed j,
           length (filter (\<lambda>s. seg_status s = COMPLETED \<or> seg_status s = FAILED) (segments j))))
     (get_job (run_ops c9_ops) ''job'')
   = Some ([COMPLETED, RUNNING], 1, 1)"
proof -
  from c9_ops_job obtain job where j: "get_job (run_ops c9_ops) ''job'' = Some job"
    and s: "map seg_status (segments job) = [COMPLETED, RUNNING]" "segments_completed job = 1"
    by auto
  from segments_completed_counts_finished [OF j] j s show ?thesis by simp
qed

text \<open>
  Claim C10. A status filter that names no job status (after lowering) is ignored by
  \<open>list_jobs\<close>: the answer is that of the call without a filter, all jobs, newest first,
  cut to the limit.
\<close>

theorem list_jobs_unknown_filter_ignored:
  assumes "JobStatus_of_value (lower f) = None"
  shows "list_jobs jm limit (Some f) = slice_to limit (sort_newest_first (map snd (jobs jm)))
       \<and> list_jobs jm limit (Some f) = list_jobs jm limit None
       \<and> sorted (rev (map created_at (list_jobs jm limit (Some f))))
       \<and> (0 \<le> limit \<longrightarrow> int (length (list_jobs jm limit (Some f))) \<le> limit)"
proof -
  have eq: "list_jobs jm limit (Some f) = slice_to limit (sort_newest_first (map snd (jobs jm)))"
    using assms by (simp add: list_jobs_def Let_def)
  have none: "list_jobs jm limit None = slice_to limit (sort_newest_first (map snd (jobs jm)))"
    by (simp add: list_jobs_def)
  have desc: "sorted (rev (map created_at (sort_newest_first js)))" for js
    by (simp add: sort_newest_first_def rev_map)
  have tk: "sorted (rev (map created_at (take k xs)))" if "sorted (rev (map created_at xs))" for k xs
  proof -
    have "rev (map created_at (take k xs)) = drop (length xs - k) (rev (map created_at xs))"
      by (simp add: take_map [symmetric] rev_take del: take_map)
    with that show ?thesis by (simp add: sorted_wrt_drop)
  qed
  have "sorted (rev (map created_at (slice_to limit (sort_newest_first js))))" for js
    unfolding slice_to_def using tk [OF desc] by simp
  moreover have "0 \<le> limit \<longrightarrow> int (length (slice_to limit xs)) \<le> limit" for xs :: "ProcessingJob list"
    by (auto simp add: slice_to_def min_def)
  ultimately show ?thesis
    using eq none by simp
qed

theorem list_jobs_unknown_filter_ignored_witness:
  "JobStatus_of_value (lower ''Bogus'') = None
   \<and> map job_id (list_jobs two_jobs 50 (Some ''Bogus'')) = [''b'', ''a'']
   \<and> list_jobs two_jobs 50 (Some ''Bogus'') = list_jobs two_jobs 50 None"
proof -
  have "map job_id (slice_to 50 (sort_newest_first (map snd (jobs two_jobs)))) = [''b'', ''a'']"
    by code_simp
  moreover note list_jobs_unknown_filter_ignored [OF bogus_is_no_status, of two_jobs 50]
  ultimately show ?thesis using bogus_is_no_status by metis
qed

text \<open>
  Claim C3, as amended. On a running job \<open>cancel_job\<close> succeeds and sets the status to
  Cancelled, leaving every segment as it is. The segment loop of the orchestrator never
  reads the job's status: run on after the cancellation, it leaves the segments before its
  start index untouched (a Completed segment keeps its status and artifacts), marks every
  remaining segment Completed when no exception leaves the loop, and leaves the status
  Cancelled.
\<close>

theorem cancelled_job_keeps_processing:
  assumes "get_job jm jid = Some job" and "status job = RUNNING"
  shows "fst (cancel_job jm jid now)
       \<and> get_job (snd (cancel_job jm jid now)) jid =
           Some (job\<lparr>status := CANCELLED, message := ''Job cancelled'', updated_at := now\<rparr>)
       \<and> (\<forall>k segs w rs jm' w' rs'.
            process_loop env cfg jid n (List.enumerate k segs) (snd (cancel_job jm jid now), w, rs)
              = (None, (jm', w', rs'))
            \<and> k + length segs \<le> length (segments job)
            \<longrightarrow> (\<exists>job'. get_job jm' jid = Some job' \<and> status job' = CANCELLED
                   \<and> (\<forall>i. i < k \<longrightarrow> segments job' ! i = segments job ! i)
                   \<and> (\<forall>i. k \<le> i \<and> i < k + length segs
                          \<longrightarrow> seg_status (segments job' ! i) = COMPLETED)))"
proof (intro conjI allI impI)
  show "fst (cancel_job jm jid now)"
    by (rule get_job_cancel_running [OF assms])
  show c: "get_job (snd (cancel_job jm jid now)) jid =
           Some (job\<lparr>status := CANCELLED, message := ''Job cancelled'', updated_at := now\<rparr>)"
    by (rule get_job_cancel_running [OF assms])
  fix k segs w rs jm' w' rs'
  assume a: "process_loop env cfg jid n (List.enumerate k segs) (snd (cancel_job jm jid now), w, rs)
              = (None, (jm', w', rs'))
            \<and> k + length segs \<le> length (segments job)"
  from process_loop_frame [OF conjunct1 [OF a] c] a
  show "\<exists>job'. get_job jm' jid = Some job' \<and> status job' = CANCELLED
                   \<and> (\<forall>i. i < k \<longrightarrow> segments job' ! i = segments job ! i)
                   \<and> (\<forall>i. k \<le> i \<and> i < k + length segs
                          \<longrightarrow> seg_status (segments job' ! i) = COMPLETED)"
    by auto
qed

theorem cancelled_job_keeps_processing_witness:
  "fst (cancel_job (fst after_three) ''job'' 99)
   \<and> map_option status (get_job (fst (snd after_five)) ''job'') = Some CANCELLED
   \<and> map_option (\<lambda>j. seg_status (segments j ! 3)) (get_job (fst (snd after_five)) ''job'') = Some COMPLETED
   \<and> map_option (\<lambda>j. seg_status (segments j ! 4)) (get_job (fst (snd after_five)) ''job'') = Some COMPLETED"
proof -
  from after_three_running obtain job where
    j: "get_job (fst after_three) ''job'' = Some job" "status job = RUNNING" "length (segments job) = 5"
    by auto
  note t = cancelled_job_keeps_processing [OF j(1) j(2), of 99
      "example_env (stub_wrapper False False)" default_config 5]
  from t have c: "fst (cancel_job (fst after_three) ''job'' 99)" by blast
  have len: "3 + length (drop 3 five_segments) \<le> length (segments job)"
    by (simp add: five_segments_def j(3))
  from t [THEN conjunct2, THEN conjunct2, rule_format, OF conjI [OF after_five_loop len]]
  obtain job' where
    "get_job (fst (snd after_five)) ''job'' = Some job'" "status job' = CANCELLED"
    "\<forall>i. 3 \<le> i \<and> i < 3 + length (drop 3 five_segments) \<longrightarrow> seg_status (segments job' ! i) = COMPLETED"
    by blast
  then show ?thesis using c by (simp add: five_segments_def)
qed

text \<open>
  The claim C3 as stated fails: of five segments three are completed, the job is cancelled,
  and the loop goes on to complete segments 3 and 4, which do not remain Queued.
\<close>

theorem cancel_counterexample:
  "map_option (\<lambda>j. (status j, map seg_status (segments j))) (get_job (fst after_three) ''job'')
     = Some (RUNNING, [COMPLETED, COMPLETED, COMPLETED, QUEUED, QUEUED])
   \<and> fst cancelled_after_three
   \<and> map_option (\<lambda>j. (status j, map seg_status (segments j))) (get_job (snd cancelled_after_three) ''job'')
     = Some (CANCELLED, [COMPLETED, COMPLETED, COMPLETED, QUEUED, QUEUED])
   \<and> fst after_five = None
   \<and> map_option (\<lambda>j. (status j, map seg_status (segments j))) (get_job (fst (snd after_five)) ''job'')
     = Some (CANCELLED, [COMPLETED, COMPLETED, COMPLETED, COMPLETED, COMPLETED])"
  by code_simp







text \<open>
  Claim C4, at the input where the code departs from it. When the \<open>process\<close> call of an
  enabled, available and loaded stage raises, the stage helper catches the error and
  answers its input path: the current audio is unchanged and the next stage receives it,
  as the claim says, but the entry recorded for the stage is completed, not failed. The
  handler of the stage loop that records failed is reached only by an error that leaves
  the helper.
\<close>

theorem process_error_recorded_completed:
  assumes "swiftf0_enabled cfg" and "inp \<noteq> []"
    and "w_is_available (swiftf0_wrapper env) w = Inr True"
    and "w_is_loaded (swiftf0_wrapper env) w = Inr True"
    and "w_process (swiftf0_wrapper env) inp
           (path_join (temp_dir env) (jid @ ''_segment_'' @ str_nat i @ ''_swiftf0.wav'')) w
         = (Inl e, w')"
  shows "run_stage env cfg jid i ''swiftf0'' (Some inp, stages, w)
         = (Some inp, AList.update ''swiftf0'' (StageCompleted (Some inp)) stages, w')"
  using assms
  by (simp add: run_stage_def process_swiftf0_def run_wrapper_def stage_outcome_def)

theorem process_error_recorded_completed_witness:
  "w_process (swiftf0_wrapper (example_env (stub_wrapper True True))) ''s0.wav''
      (path_join (temp_dir (example_env (stub_wrapper True True)))
         (''job'' @ ''_segment_'' @ str_nat 0 @ ''_swiftf0.wav'')) five_files
     = (Inl (RuntimeError ''model crashed''), five_files)
   \<and> run_stage (example_env (stub_wrapper True True)) default_config ''job'' 0 ''swiftf0''
        (Some ''s0.wav'', [], five_files)
      = (Some ''s0.wav'', [(''swiftf0'', StageCompleted (Some ''s0.wav''))], five_files)"
proof -
  have p: "w_process (swiftf0_wrapper (example_env (stub_wrapper True True))) ''s0.wav''
      (path_join (temp_dir (example_env (stub_wrapper True True)))
         (''job'' @ ''_segment_'' @ str_nat 0 @ ''_swiftf0.wav'')) five_files
     = (Inl (RuntimeError ''model crashed''), five_files)"
    by (simp add: example_env_def stub_wrapper_def)
  have "run_stage (example_env (stub_wrapper True True)) default_config ''job'' 0 ''swiftf0''
        (Some ''s0.wav'', [], five_files)
      = (Some ''s0.wav'', AList.update ''swiftf0'' (StageCompleted (Some ''s0.wav'')) [], five_files)"
    by (rule process_error_recorded_completed [OF _ _ _ _ p])
       (simp_all add: default_config_def example_env_def stub_wrapper_def)
  with p show ?thesis by simp
qed

text \<open>
  Claim C8. When the segment loop of a job has ended and no segment result has an output
  path, \<open>combine_segments\<close> raises the ValueError "No valid segments to combine", and
  \<open>process_job\<close> leaves the job Failed with that message and with its results as they
  were: unset for a job that has not completed before.
\<close>

theorem no_valid_segments_fails_job:
  assumes "process_loop env cfg jid (length segs) (List.enumerate 0 segs)
             (update_job_status jm jid RUNNING ''Starting pipeline'' None, w, []) = (None, (jm1, w1, rs))"
    and "filter (\<lambda>s. truthy (sr_output_path s)) rs = []"
    and "get_job jm jid = Some job"
  shows "combine_segments env rs cfg jid w1 = (Inl (ValueError ''No valid segments to combine''), w1)
       \<and> (\<exists>job'. get_job (fst (process_job env jid cfg segs (jm, w))) jid = Some job'
              \<and> status job' = FAILED
              \<and> message job' = ''Job failed: No valid segments to combine''
              \<and> results job' = results job)"
proof
  show c: "combine_segments env rs cfg jid w1 = (Inl (ValueError ''No valid segments to combine''), w1)"
    by (rule combine_segments_no_valid [OF assms(2)])
  have "get_job (update_job_status jm jid RUNNING ''Starting pipeline'' None) jid
          = Some (job\<lparr>status := RUNNING, message := ''Starting pipeline'', progress := progress job\<rparr>)"
    using assms(3) by (simp add: get_job_update_job_status)
  from process_loop_frame [OF assms(1) this] obtain job1 where
    j1: "get_job jm1 jid = Some job1" "results job1 = results job"
    by auto
  have pj: "fst (process_job env jid cfg segs (jm, w))
          = fail_job (update_job_progress jm1 jid 90 ''combining_segments''
                        ''Combining processed segments'' (clock env w1))
              jid ''No valid segments to combine'' (clock env w1)"
    using assms(1) c by (simp add: process_job_def process_def Let_def)
  show "\<exists>job'. get_job (fst (process_job env jid cfg segs (jm, w))) jid = Some job'
              \<and> status job' = FAILED
              \<and> message job' = ''Job failed: No valid segments to combine''
              \<and> results job' = results job"
    using j1 by (simp add: pj get_job_fail_job get_job_update_job_progress update_progress_fields)
qed

theorem no_valid_segments_fails_job_witness:
  "filter (\<lambda>s. truthy (sr_output_path s)) (snd (snd (snd no_audio_loop))) = []
   \<and> map_option (\<lambda>j. (status j, message j, results j))
       (get_job (fst (process_job (example_env (stub_wrapper True False)) ''job'' default_config
                        [seg_at 0 10 None] (no_audio_created, []))) ''job'')
     = Some (FAILED, ''Job failed: No valid segments to combine'', None)"
proof -
  from no_audio_loop_facts(3) obtain job where
    j: "get_job no_audio_created ''job'' = Some job" "results job = None"
    by auto
  have loop: "process_loop (example_env (stub_wrapper True False)) default_config ''job''
       (length [seg_at 0 10 None]) (List.enumerate 0 [seg_at 0 10 None])
       (update_job_status no_audio_created ''job'' RUNNING ''Starting pipeline'' None, [], [])
     = (None, (fst (snd no_audio_loop), fst (snd (snd no_audio_loop)), snd (snd (snd no_audio_loop))))"
    using no_audio_loop_facts(1) by (simp add: no_audio_loop_def prod_eq_iff)
  from no_valid_segments_fails_job [OF loop no_audio_loop_facts(2) j(1)] j(2) no_audio_loop_facts(2)
  show ?thesis by auto
qed




end
